theory Spec2Isabelle
  imports Complex_Main "HOL-Library.Word"
begin

section \<open>Numeric model of the array samples\<close>

text \<open>
  The pipeline of \<^verbatim>\<open>src/image.py\<close> works on a NumPy array of floating-point samples.
  A sample is modelled as a real number or one of the three special values of IEEE
  arithmetic. Finite arithmetic is exact (rounding and overflow of the machine formats
  are not modelled, and the two zeros are not told apart); the special values follow the
  IEEE rules NumPy implements: a NaN operand gives NaN, every comparison with NaN is
  false, \<open>0/0\<close>, \<open>inf - inf\<close>, \<open>0 * inf\<close> and \<open>inf/inf\<close> are NaN, and NumPy's
  \<^verbatim>\<open>log10\<close> is \<open>-inf\<close> at zero and NaN below it. None of these raises a Python
  exception: NumPy only emits a warning.
\<close>

datatype npfloat = Fin real | PInf | NInf | NaN

fun np_neg :: "npfloat \<Rightarrow> npfloat" where
  "np_neg (Fin a) = Fin (- a)"
| "np_neg PInf = NInf"
| "np_neg NInf = PInf"
| "np_neg NaN = NaN"

fun np_add :: "npfloat \<Rightarrow> npfloat \<Rightarrow> npfloat" where
  "np_add (Fin a) (Fin b) = Fin (a + b)"
| "np_add NaN _ = NaN"
| "np_add _ NaN = NaN"
| "np_add PInf NInf = NaN"
| "np_add NInf PInf = NaN"
| "np_add PInf _ = PInf"
| "np_add NInf _ = NInf"
| "np_add (Fin a) PInf = PInf"
| "np_add (Fin a) NInf = NInf"

definition np_sub :: "npfloat \<Rightarrow> npfloat \<Rightarrow> npfloat" where
  "np_sub a b = np_add a (np_neg b)"

text \<open>The sign of a product or quotient with an infinite operand.\<close>

definition signed_inf :: "bool \<Rightarrow> npfloat" where
  "signed_inf positive = (if positive then PInf else NInf)"

fun np_mul :: "npfloat \<Rightarrow> npfloat \<Rightarrow> npfloat" where
  "np_mul (Fin a) (Fin b) = Fin (a * b)"
| "np_mul NaN _ = NaN"
| "np_mul _ NaN = NaN"
| "np_mul PInf PInf = PInf"
| "np_mul PInf NInf = NInf"
| "np_mul NInf PInf = NInf"
| "np_mul NInf NInf = PInf"
| "np_mul PInf (Fin b) = (if b = 0 then NaN else signed_inf (0 < b))"
| "np_mul NInf (Fin b) = (if b = 0 then NaN else signed_inf (b < 0))"
| "np_mul (Fin a) PInf = (if a = 0 then NaN else signed_inf (0 < a))"
| "np_mul (Fin a) NInf = (if a = 0 then NaN else signed_inf (a < 0))"

fun np_div :: "npfloat \<Rightarrow> npfloat \<Rightarrow> npfloat" where
  "np_div (Fin a) (Fin b) =
     (if b \<noteq> 0 then Fin (a / b)
      else if a = 0 then NaN
      else signed_inf (0 < a))"
| "np_div NaN _ = NaN"
| "np_div _ NaN = NaN"
| "np_div (Fin a) PInf = Fin 0"
| "np_div (Fin a) NInf = Fin 0"
| "np_div PInf (Fin b) = signed_inf (0 \<le> b)"
| "np_div NInf (Fin b) = signed_inf (b < 0)"
| "np_div PInf _ = NaN"
| "np_div NInf _ = NaN"

fun np_abs :: "npfloat \<Rightarrow> npfloat" where
  "np_abs (Fin a) = Fin \<bar>a\<bar>"
| "np_abs PInf = PInf"
| "np_abs NInf = PInf"
| "np_abs NaN = NaN"

text \<open>\<^verbatim>\<open>x ** 2\<close> on a float array squares each sample.\<close>

definition np_square :: "npfloat \<Rightarrow> npfloat" where
  "np_square x = np_mul x x"

fun np_log10 :: "npfloat \<Rightarrow> npfloat" where
  "np_log10 (Fin a) = (if 0 < a then Fin (log 10 a) else if a = 0 then NInf else NaN)"
| "np_log10 PInf = PInf"
| "np_log10 NInf = NaN"
| "np_log10 NaN = NaN"

fun np_lt :: "npfloat \<Rightarrow> npfloat \<Rightarrow> bool" where
  "np_lt (Fin a) (Fin b) = (a < b)"
| "np_lt NaN _ = False"
| "np_lt _ NaN = False"
| "np_lt _ NInf = False"
| "np_lt PInf _ = False"
| "np_lt NInf _ = True"
| "np_lt (Fin a) PInf = True"

fun np_le :: "npfloat \<Rightarrow> npfloat \<Rightarrow> bool" where
  "np_le (Fin a) (Fin b) = (a \<le> b)"
| "np_le NaN _ = False"
| "np_le _ NaN = False"
| "np_le NInf _ = True"
| "np_le _ PInf = True"
| "np_le PInf _ = False"
| "np_le (Fin a) NInf = False"

definition np_gt :: "npfloat \<Rightarrow> npfloat \<Rightarrow> bool" where
  "np_gt a b = np_lt b a"

definition np_ge :: "npfloat \<Rightarrow> npfloat \<Rightarrow> bool" where
  "np_ge a b = np_le b a"

text \<open>
  \<^verbatim>\<open>np.minimum\<close> and \<^verbatim>\<open>np.maximum\<close> return the NaN operand when there is one;
  \<^verbatim>\<open>np.min\<close>, \<^verbatim>\<open>np.amin\<close>, \<^verbatim>\<open>np.max\<close> and \<^verbatim>\<open>np.amax\<close> reduce the flattened array
  with them, so one NaN sample makes the minimum and the maximum NaN.
\<close>

definition np_minimum :: "npfloat \<Rightarrow> npfloat \<Rightarrow> npfloat" where
  "np_minimum a b = (if a = NaN \<or> b = NaN then NaN else if np_lt b a then b else a)"

definition np_maximum :: "npfloat \<Rightarrow> npfloat \<Rightarrow> npfloat" where
  "np_maximum a b = (if a = NaN \<or> b = NaN then NaN else if np_lt a b then b else a)"

section \<open>Errors, arrays and the image object\<close>

text \<open>
  Every exception the modelled code raises is a Python \<^verbatim>\<open>ValueError\<close>; the constructor
  records which \<^verbatim>\<open>raise\<close> it comes from, under the name the specification gives that
  failure where it has one.
  \<^item> \<open>InvalidArgument\<close>: \<^verbatim>\<open>ValueError('Invalid output format. ...')\<close> in \<^verbatim>\<open>normalize\<close>;
  \<^item> \<open>InvalidState\<close>: \<^verbatim>\<open>ValueError("Data must be normalized to a valid range (0-1)
    before calibration")\<close> in \<^verbatim>\<open>calibrate\<close>;
  \<^item> \<open>FormatError\<close>: \<^verbatim>\<open>ValueError("Invalid file name format")\<close> in
    \<^verbatim>\<open>extract_info_from_filename\<close>;
  \<^item> \<open>TimeDataError\<close>: the \<^verbatim>\<open>ValueError\<close> of \<^verbatim>\<open>datetime.strptime\<close> on digits that are
    not a date and time;
  \<^item> \<open>ZeroSizeArray\<close>: the \<^verbatim>\<open>ValueError\<close> of a NumPy minimum or maximum over an array
    with no element.
\<close>

datatype error = InvalidArgument | InvalidState | FormatError | TimeDataError | ZeroSizeArray

datatype dtype = float32 | float64

text \<open>A 2-D array: its element type and its rows.\<close>

record ndarray =
  dtype :: dtype
  rows :: "npfloat list list"

definition ravel :: "ndarray \<Rightarrow> npfloat list" where
  "ravel a = concat (rows a)"

definition np_min :: "ndarray \<Rightarrow> error + npfloat" where
  "np_min a = (case ravel a of [] \<Rightarrow> Inl ZeroSizeArray | x # xs \<Rightarrow> Inr (foldl np_minimum x xs))"

definition np_max :: "ndarray \<Rightarrow> error + npfloat" where
  "np_max a = (case ravel a of [] \<Rightarrow> Inl ZeroSizeArray | x # xs \<Rightarrow> Inr (foldl np_maximum x xs))"

text \<open>An elementwise operation gives a new array of the same shape and element type.\<close>

definition elementwise :: "(npfloat \<Rightarrow> npfloat) \<Rightarrow> ndarray \<Rightarrow> ndarray" where
  "elementwise f a = a\<lparr>rows := map (map f) (rows a)\<rparr>"

definition astype :: "dtype \<Rightarrow> ndarray \<Rightarrow> ndarray" where
  "astype t a = a\<lparr>dtype := t\<rparr>"

text \<open>The attributes of a \<^verbatim>\<open>GRDImage\<close> object.\<close>

record GRDImage =
  file_path :: string
  data :: ndarray
  image_id :: string
  timestamp :: string
  calibration_factor :: npfloat

text \<open>
  A method takes the object and returns what the call did, an exception or a return
  value, together with the object as the call leaves it: an exception does not undo
  an assignment made before it.
\<close>

type_synonym 'a outcome = "(error + 'a) \<times> GRDImage"

section \<open>Calibration\<close>

text \<open>
  The \<^verbatim>\<open>if\<close>/\<^verbatim>\<open>elif\<close> after the range check of \<^verbatim>\<open>calibrate\<close> picks one of two
  adjustments or none; the choice is made explicit so that reachability can be stated. It
  evaluates \<^verbatim>\<open>np.amin(self.data)\<close> and \<^verbatim>\<open>np.amax(self.data)\<close> again, on the array the
  range check has just read, so the values are those of the check. In the range check the
  maximum is evaluated only when the minimum is not below zero (Python's \<^verbatim>\<open>or\<close>).
\<close>

datatype adjustment = DivideBy255 | ShiftAndHalve | NoAdjustment

definition choose_adjustment :: "npfloat \<Rightarrow> npfloat \<Rightarrow> adjustment" where
  "choose_adjustment lo hi =
     (if np_ge lo (Fin 0) \<and> np_gt hi (Fin 1) then DivideBy255
      else if np_lt lo (Fin 0) then ShiftAndHalve
      else NoAdjustment)"

fun adjust :: "adjustment \<Rightarrow> ndarray \<Rightarrow> ndarray" where
  "adjust DivideBy255 a = elementwise (\<lambda>x. np_div x (Fin 255)) a"
| "adjust ShiftAndHalve a = elementwise (\<lambda>x. np_div (np_add x (Fin 1)) (Fin 2)) a"
| "adjust NoAdjustment a = a"

definition small_value :: real where
  "small_value = 1 / 10 ^ 10"

definition calibrate :: "GRDImage \<Rightarrow> unit outcome" where
  "calibrate self =
     (case np_min (data self) of
        Inl e \<Rightarrow> (Inl e, self)
      | Inr lo \<Rightarrow>
          if np_lt lo (Fin 0) then (Inl InvalidState, self)
          else
            (case np_max (data self) of
               Inl e \<Rightarrow> (Inl e, self)
             | Inr hi \<Rightarrow>
                 if np_gt hi (Fin 1) then (Inl InvalidState, self)
                 else
                   let self = self\<lparr>data := adjust (choose_adjustment lo hi) (data self)\<rparr>;
                       sigma0 = elementwise (np_mul (calibration_factor self))
                                  (elementwise np_square (elementwise np_abs (data self)));
                       sigma0_db = elementwise (np_mul (Fin 10))
                                     (elementwise np_log10
                                        (elementwise (\<lambda>x. np_add x (Fin small_value)) sigma0))
                   in (Inr (), self\<lparr>data := sigma0_db\<rparr>)))"


text \<open>
  A sample lies in \<open>[0,1]\<close> when both comparisons hold; NaN and the infinities do not.
\<close>

definition in_unit_range :: "npfloat \<Rightarrow> bool" where
  "in_unit_range x = (np_le (Fin 0) x \<and> np_le x (Fin 1))"

section \<open>Normalization\<close>

text \<open>
  Each branch of \<^verbatim>\<open>normalize\<close> evaluates \<^verbatim>\<open>np.min(grd_data)\<close> and
  \<^verbatim>\<open>np.max(grd_data)\<close> before any arithmetic; on an array with no element the first of
  them raises.
\<close>

definition min_and_max :: "ndarray \<Rightarrow> error + (npfloat \<times> npfloat)" where
  "min_and_max a =
     (case np_min a of
        Inl e \<Rightarrow> Inl e
      | Inr lo \<Rightarrow> (case np_max a of Inl e \<Rightarrow> Inl e | Inr hi \<Rightarrow> Inr (lo, hi)))"

definition normalize :: "GRDImage \<Rightarrow> string \<Rightarrow> unit outcome" where
  "normalize self output_format =
     (let grd_data = data self in
      if output_format = ''0-1'' then
        (case min_and_max grd_data of
           Inl e \<Rightarrow> (Inl e, self)
         | Inr (lo, hi) \<Rightarrow>
             let normalized_data =
                   elementwise (\<lambda>x. np_div x (np_sub hi lo))
                     (elementwise (\<lambda>x. np_sub x lo) grd_data)
             in (Inr (), self\<lparr>data := astype float32 normalized_data\<rparr>))
      else if output_format = ''-1-1'' then
        (case min_and_max grd_data of
           Inl e \<Rightarrow> (Inl e, self)
         | Inr (lo, hi) \<Rightarrow>
             let normalized_data =
                   elementwise (\<lambda>x. np_sub x (Fin 1))
                     (elementwise (\<lambda>x. np_div x (np_sub hi lo))
                        (elementwise (np_mul (Fin 2))
                           (elementwise (\<lambda>x. np_sub x lo) grd_data)))
             in (Inr (), self\<lparr>data := astype float32 normalized_data\<rparr>))
      else if output_format = ''0-255'' then
        (case min_and_max grd_data of
           Inl e \<Rightarrow> (Inl e, self)
         | Inr (lo, hi) \<Rightarrow>
             let normalized_data =
                   elementwise (\<lambda>x. np_div x (np_sub hi lo))
                     (elementwise (np_mul (Fin 255))
                        (elementwise (\<lambda>x. np_sub x lo) grd_data))
             in (Inr (), self\<lparr>data := astype float32 normalized_data\<rparr>))
      else (Inl InvalidArgument, self))"

section \<open>Downsampling and encoding\<close>




text \<open>
  A Pillow image of mode \<open>L\<close> (one 8-bit channel), as \<^verbatim>\<open>Image.fromarray(image_data,
  mode="L")\<close> builds it, and the files written so far, by path. \<^verbatim>\<open>image.save\<close> stores the
  image under the path; failures of the encoder or of the file system are not modelled.
\<close>

datatype pil_mode = ModeL | ModeF






section \<open>The file name parser\<close>

text \<open>
  Paths are strings of ASCII characters, and \<^verbatim>\<open>\d\<close> is one of the ten ASCII digits.
\<close>

definition is_digit :: "char \<Rightarrow> bool" where
  "is_digit c = (c \<in> set ''0123456789'')"

fun strip_prefix :: "string \<Rightarrow> string \<Rightarrow> string option" where
  "strip_prefix [] s = Some s"
| "strip_prefix (p # ps) [] = None"
| "strip_prefix (p # ps) (c # cs) = (if p = c then strip_prefix ps cs else None)"

text \<open>
  A match of the pattern
  \<^verbatim>\<open>ICEYE_X\d+_GRD_(SM|SL)_(\d+)_(\d{8}T\d{6})\<close>
  that starts at the head of the string, with its three groups. Each \<^verbatim>\<open>\d+\<close> is followed
  in the pattern by an underscore, so it can only stand for the whole run of digits at its
  place: backtracking to a shorter run never helps.
\<close>

definition match_at :: "string \<Rightarrow> (string \<times> string \<times> string) option" where
  "match_at s =
     (case strip_prefix ''ICEYE_X'' s of
        None \<Rightarrow> None
      | Some s1 \<Rightarrow>
          if takeWhile is_digit s1 = [] then None
          else
            (case strip_prefix ''_GRD_'' (dropWhile is_digit s1) of
               None \<Rightarrow> None
             | Some s2 \<Rightarrow>
                 if take 2 s2 \<noteq> ''SM'' \<and> take 2 s2 \<noteq> ''SL'' then None
                 else
                   (case strip_prefix ''_'' (drop 2 s2) of
                      None \<Rightarrow> None
                    | Some s3 \<Rightarrow>
                        if takeWhile is_digit s3 = [] then None
                        else
                          (case strip_prefix ''_'' (dropWhile is_digit s3) of
                             None \<Rightarrow> None
                           | Some s4 \<Rightarrow>
                               if 15 \<le> length s4 \<and> list_all is_digit (take 8 s4) \<and>
                                  s4 ! 8 = CHR ''T'' \<and> list_all is_digit (take 6 (drop 9 s4))
                               then Some (take 2 s2, takeWhile is_digit s3, take 15 s4)
                               else None))))"













text \<open>
  The specification's reading of the file name pattern,
  \<open>ICEYE_X<digits>_GRD_(SM|SL)_<digits>_<8digits>T<6digits>\<close>: the string \<open>m\<close> is such a
  name, with mode \<open>g1\<close>, product id \<open>g2\<close> and time stamp \<open>g3\<close>.
\<close>

definition digits :: "string \<Rightarrow> bool" where
  "digits s = (s \<noteq> [] \<and> list_all is_digit s)"

definition iceye_pattern :: "string \<Rightarrow> string \<Rightarrow> string \<Rightarrow> string \<Rightarrow> bool" where
  "iceye_pattern m g1 g2 g3 =
     (\<exists>d1 ymd hms.
        m = ''ICEYE_X'' @ d1 @ ''_GRD_'' @ g1 @ ''_'' @ g2 @ ''_'' @ g3 \<and>
        digits d1 \<and> (g1 = ''SM'' \<or> g1 = ''SL'') \<and> digits g2 \<and>
        g3 = ymd @ ''T'' @ hms \<and>
        length ymd = 8 \<and> list_all is_digit ymd \<and> length hms = 6 \<and> list_all is_digit hms)"




section \<open>Sample inputs\<close>

text \<open>
  Concrete images on which the theorems below are evaluated: the attributes the
  constructor sets for the file of the repository's tests, around the given rows.
\<close>

definition sample_image :: "npfloat list list \<Rightarrow> GRDImage" where
  "sample_image rs =
     \<lparr>file_path = ''data/input/ICEYE_X4_GRD_SM_9281_20190903T144946.tif'',
      data = \<lparr>dtype = float32, rows = rs\<rparr>,
      image_id = ''9281'', timestamp = ''2019-09-03T14:49:46'',
      calibration_factor = Fin 1\<rparr>"




section \<open>Ordering of samples, minimum and maximum\<close>

lemma np_le_trans: "np_le a b \<Longrightarrow> np_le b c \<Longrightarrow> np_le a c"
  by (cases a; cases b; cases c; simp)



lemma np_le_refl: "a \<noteq> NaN \<Longrightarrow> np_le a a"
  by (cases a; simp)

lemma np_not_lt: "a \<noteq> NaN \<Longrightarrow> b \<noteq> NaN \<Longrightarrow> \<not> np_lt a b \<Longrightarrow> np_le b a"
  by (cases a; cases b; simp)

lemma np_lt_imp_le: "np_lt a b \<Longrightarrow> np_le a b"
  by (cases a; cases b; simp)

lemma np_le_not_lt: "np_le a b \<Longrightarrow> \<not> np_lt b a"
  by (cases a; cases b; simp)

lemma foldl_minimum_NaN: "foldl np_minimum NaN xs = NaN"
  by (induction xs) (simp_all add: np_minimum_def)

lemma foldl_maximum_NaN: "foldl np_maximum NaN xs = NaN"
  by (induction xs) (simp_all add: np_maximum_def)

lemma foldl_minimum_has_NaN: "NaN \<in> set (x # xs) \<Longrightarrow> foldl np_minimum x xs = NaN"
  by (induction xs arbitrary: x) (auto simp: np_minimum_def foldl_minimum_NaN)

lemma foldl_maximum_has_NaN: "NaN \<in> set (x # xs) \<Longrightarrow> foldl np_maximum x xs = NaN"
  by (induction xs arbitrary: x) (auto simp: np_maximum_def foldl_maximum_NaN)

lemma foldl_minimum_least:
  "NaN \<notin> set (x # xs) \<Longrightarrow>
   foldl np_minimum x xs \<in> set (x # xs) \<and> (\<forall>y\<in>set (x # xs). np_le (foldl np_minimum x xs) y)"
proof (induction xs arbitrary: x)
  case Nil
  then show ?case by (simp add: np_le_refl)
next
  case (Cons a xs)
  let ?m = "np_minimum x a"
  from Cons.prems have m: "?m \<noteq> NaN" "?m \<in> {x, a}" "np_le ?m x" "np_le ?m a"
    by (auto simp: np_minimum_def np_le_refl np_lt_imp_le np_not_lt)
  with Cons.prems have "NaN \<notin> set (?m # xs)" by auto
  from Cons.IH[OF this]
  have ih: "foldl np_minimum ?m xs \<in> set (?m # xs)"
    "\<forall>y\<in>set (?m # xs). np_le (foldl np_minimum ?m xs) y" by auto
  show ?case using ih m by (auto intro: np_le_trans)
qed

lemma foldl_maximum_greatest:
  "NaN \<notin> set (x # xs) \<Longrightarrow>
   foldl np_maximum x xs \<in> set (x # xs) \<and> (\<forall>y\<in>set (x # xs). np_le y (foldl np_maximum x xs))"
proof (induction xs arbitrary: x)
  case Nil
  then show ?case by (simp add: np_le_refl)
next
  case (Cons a xs)
  let ?m = "np_maximum x a"
  from Cons.prems have m: "?m \<noteq> NaN" "?m \<in> {x, a}" "np_le x ?m" "np_le a ?m"
    by (auto simp: np_maximum_def np_le_refl np_lt_imp_le np_not_lt)
  with Cons.prems have "NaN \<notin> set (?m # xs)" by auto
  from Cons.IH[OF this]
  have ih: "foldl np_maximum ?m xs \<in> set (?m # xs)"
    "\<forall>y\<in>set (?m # xs). np_le y (foldl np_maximum ?m xs)" by auto
  show ?case using ih m by (auto intro: np_le_trans)
qed

text \<open>Minimum and maximum of an array with at least one sample and no NaN.\<close>

lemma np_min_least:
  assumes "ravel a \<noteq> []" "NaN \<notin> set (ravel a)"
  obtains lo where "np_min a = Inr lo" "lo \<in> set (ravel a)" "\<forall>y\<in>set (ravel a). np_le lo y"
proof -
  from assms(1) obtain x xs where xs: "ravel a = x # xs" by (cases "ravel a") auto
  with assms(2) have "NaN \<notin> set (x # xs)" by simp
  from foldl_minimum_least[OF this] xs show thesis
    by (intro that[of "foldl np_minimum x xs"]) (simp_all add: np_min_def)
qed

lemma np_max_greatest:
  assumes "ravel a \<noteq> []" "NaN \<notin> set (ravel a)"
  obtains hi where "np_max a = Inr hi" "hi \<in> set (ravel a)" "\<forall>y\<in>set (ravel a). np_le y hi"
proof -
  from assms(1) obtain x xs where xs: "ravel a = x # xs" by (cases "ravel a") auto
  with assms(2) have "NaN \<notin> set (x # xs)" by simp
  from foldl_maximum_greatest[OF this] xs show thesis
    by (intro that[of "foldl np_maximum x xs"]) (simp_all add: np_max_def)
qed

lemma np_min_empty: "ravel a = [] \<Longrightarrow> np_min a = Inl ZeroSizeArray"
  by (simp add: np_min_def)

lemma in_unit_range_iff: "in_unit_range x \<longleftrightarrow> (\<exists>r. x = Fin r \<and> 0 \<le> r \<and> r \<le> 1)"
  by (cases x) (simp_all add: in_unit_range_def)

lemma in_unit_range_not_NaN: "in_unit_range x \<Longrightarrow> x \<noteq> NaN"
  by (auto simp: in_unit_range_iff)

text \<open>Once the range check has passed, neither adjustment is chosen.\<close>

lemma choose_adjustment_after_check:
  "\<not> np_lt lo (Fin 0) \<Longrightarrow> \<not> np_gt hi (Fin 1) \<Longrightarrow> choose_adjustment lo hi = NoAdjustment"
  by (simp add: choose_adjustment_def)


lemma elementwise_fuse: "elementwise f (elementwise g a) = elementwise (f \<circ> g) a"
  by (simp add: elementwise_def)

text \<open>What calibrate does past the range check.\<close>

lemma calibrate_cases:
  "calibrate self =
     (case np_min (data self) of
        Inl e \<Rightarrow> (Inl e, self)
      | Inr lo \<Rightarrow>
          (case np_max (data self) of
             Inl e \<Rightarrow> (if np_lt lo (Fin 0) then (Inl InvalidState, self) else (Inl e, self))
           | Inr hi \<Rightarrow>
               if np_lt lo (Fin 0) \<or> np_gt hi (Fin 1) then (Inl InvalidState, self)
               else (Inr (), self\<lparr>data :=
                       elementwise
                         (\<lambda>x. np_mul (Fin 10)
                                (np_log10
                                   (np_add (np_mul (calibration_factor self) (np_square (np_abs x)))
                                      (Fin small_value))))
                         (data self)\<rparr>)))"
  by (auto simp: calibrate_def Let_def choose_adjustment_after_check elementwise_fuse
        comp_def split: sum.splits)



lemma calibrate_in_range:
  assumes ne: "ravel (data self) \<noteq> []"
    and unit: "\<forall>x\<in>set (ravel (data self)). in_unit_range x"
  shows "calibrate self =
     (Inr (), self\<lparr>data :=
        elementwise
          (\<lambda>x. np_mul (Fin 10)
                 (np_log10
                    (np_add (np_mul (calibration_factor self) (np_square (np_abs x)))
                       (Fin small_value))))
          (data self)\<rparr>)"
proof -
  from unit have nonan: "NaN \<notin> set (ravel (data self))"
    by (auto dest: in_unit_range_not_NaN)
  from np_min_least[OF ne nonan] obtain lo where
    lo: "np_min (data self) = Inr lo" "lo \<in> set (ravel (data self))" by blast
  from np_max_greatest[OF ne nonan] obtain hi where
    hi: "np_max (data self) = Inr hi" "hi \<in> set (ravel (data self))" by blast
  from lo(2) hi(2) unit have "in_unit_range lo" "in_unit_range hi" by auto
  then have "\<not> np_lt lo (Fin 0)" "\<not> np_gt hi (Fin 1)"
    unfolding in_unit_range_def np_gt_def by (auto dest: np_le_not_lt)
  with lo(1) hi(1) show ?thesis by (simp add: calibrate_cases)
qed

lemma calibrate_error_unchanged: "fst (calibrate self) = Inl e \<Longrightarrow> snd (calibrate self) = self"
  by (auto simp: calibrate_cases split: sum.splits if_splits)

lemma normalize_error_unchanged:
  "fst (normalize self fmt) = Inl e \<Longrightarrow> snd (normalize self fmt) = self"
  by (auto simp: normalize_def Let_def split: sum.splits if_splits prod.splits)

lemma normalize_invalid_format:
  "fmt \<noteq> ''0-1'' \<Longrightarrow> fmt \<noteq> ''-1-1'' \<Longrightarrow> fmt \<noteq> ''0-255'' \<Longrightarrow>
   normalize self fmt = (Inl InvalidArgument, self)"
  by (simp add: normalize_def)


lemmas eval_simps = sample_image_def calibrate_def np_min_def np_max_def ravel_def
  np_minimum_def np_maximum_def np_gt_def np_ge_def choose_adjustment_def elementwise_def
  np_square_def normalize_def min_and_max_def astype_def np_sub_def in_unit_range_def

section \<open>The range check of calibrate\<close>




section \<open>The calibration formula\<close>

lemma map_map_empty: "\<forall>r\<in>set rs. r = [] \<Longrightarrow> map (map f) rs = rs"
  by (induction rs) auto

lemma elementwise_empty: "ravel a = [] \<Longrightarrow> elementwise f a = a"
  by (simp add: ravel_def elementwise_def map_map_empty)

lemma calibrate_empty: "ravel (data self) = [] \<Longrightarrow> calibrate self = (Inl ZeroSizeArray, self)"
  by (simp add: calibrate_cases np_min_def)

text \<open>
  Claim C3. For every data array whose samples all lie in \<open>[0,1]\<close>, the data after
  \<^verbatim>\<open>calibrate\<close> is the data before it with every sample \<open>x\<close> replaced by
  \<open>10 * log10(calibration_factor * |x|^2 + 1e-10)\<close>, in NumPy's arithmetic; the call
  returns normally when the array has a sample (on an array with none, which no raster
  yields, the minimum raises and there is nothing to replace). For a finite factor
  \<open>c \<ge> 0\<close> and a finite sample \<open>r\<close> the NumPy expression is the real number
  \<open>10 * log\<^sub>1\<^sub>0 (c * |r|\<^sup>2 + 10\<^sup>-\<^sup>1\<^sup>0)\<close>.
\<close>

theorem calibrate_formula:
  assumes "\<forall>x\<in>set (ravel (data self)). in_unit_range x"
  shows "data (snd (calibrate self)) =
           elementwise
             (\<lambda>x. np_mul (Fin 10)
                    (np_log10
                       (np_add (np_mul (calibration_factor self) (np_square (np_abs x)))
                          (Fin (1 / 10 ^ 10)))))
             (data self) \<and>
         (ravel (data self) \<noteq> [] \<longrightarrow> fst (calibrate self) = Inr ()) \<and>
         (\<forall>c r. 0 \<le> c \<longrightarrow>
            np_mul (Fin 10)
              (np_log10 (np_add (np_mul (Fin c) (np_square (np_abs (Fin r)))) (Fin (1 / 10 ^ 10)))) =
            Fin (10 * log 10 (c * \<bar>r\<bar>\<^sup>2 + 1 / 10 ^ 10)))"
proof (intro conjI allI impI)
  show "data (snd (calibrate self)) =
           elementwise
             (\<lambda>x. np_mul (Fin 10)
                    (np_log10
                       (np_add (np_mul (calibration_factor self) (np_square (np_abs x)))
                          (Fin (1 / 10 ^ 10)))))
             (data self)"
  proof (cases "ravel (data self) = []")
    case True
    then show ?thesis by (simp add: calibrate_empty elementwise_empty)
  next
    case False
    from calibrate_in_range[OF False assms] show ?thesis by (simp add: small_value_def)
  qed
next
  assume "ravel (data self) \<noteq> []"
  from calibrate_in_range[OF this assms] show "fst (calibrate self) = Inr ()" by simp
next
  fix c r :: real
  assume "0 \<le> c"
  then have "0 \<le> c * (\<bar>r\<bar> * \<bar>r\<bar>)" by simp
  then have "0 < c * (\<bar>r\<bar> * \<bar>r\<bar>) + 1 / 10 ^ 10" by simp
  then show "np_mul (Fin 10)
              (np_log10 (np_add (np_mul (Fin c) (np_square (np_abs (Fin r)))) (Fin (1 / 10 ^ 10)))) =
            Fin (10 * log 10 (c * \<bar>r\<bar>\<^sup>2 + 1 / 10 ^ 10))"
    by (simp add: np_square_def power2_eq_square)
qed

theorem calibrate_formula_witness:
  "in_unit_range (Fin 0) \<and> in_unit_range (Fin 1) \<and>
   ravel (data (sample_image [[Fin 0, Fin 1]])) \<noteq> [] \<and>
   fst (calibrate (sample_image [[Fin 0, Fin 1]])) = Inr () \<and>
   data (snd (calibrate (sample_image [[Fin 0, Fin 1]]))) =
     \<lparr>dtype = float32,
      rows = [[Fin (10 * log 10 (1 / 10 ^ 10)), Fin (10 * log 10 (1 + 1 / 10 ^ 10))]]\<rparr>"
proof -
  let ?b = "sample_image [[Fin 0, Fin 1]]"
  have ne: "ravel (data ?b) \<noteq> []" by (simp add: sample_image_def ravel_def)
  have unit: "in_unit_range (Fin 0)" "in_unit_range (Fin 1)" by (simp_all add: in_unit_range_def)
  then have all: "\<forall>x\<in>set (ravel (data ?b)). in_unit_range x"
    by (simp add: sample_image_def ravel_def)
  note t = calibrate_formula[OF all]
  from t ne have ok: "fst (calibrate ?b) = Inr ()" by blast
  from t have "data (snd (calibrate ?b)) =
     \<lparr>dtype = float32,
      rows = [[Fin (10 * log 10 (1 / 10 ^ 10)), Fin (10 * log 10 (1 + 1 / 10 ^ 10))]]\<rparr>"
    by (simp add: sample_image_def elementwise_def np_square_def)
  with ne unit ok show ?thesis by (intro conjI)
qed



section \<open>Failures leave the image unchanged\<close>

text \<open>
  Claim C10. \<^verbatim>\<open>normalize\<close> with a selector other than \<open>0-1\<close>, \<open>-1-1\<close> and \<open>0-255\<close>
  fails with \<open>InvalidArgument\<close> and returns the image as it was; and whenever
  \<^verbatim>\<open>normalize\<close> or \<^verbatim>\<open>calibrate\<close> raises, the image (data, calibration factor, image id,
  timestamp and file path) is the one the call was given.
\<close>

theorem validation_failure_leaves_image_unchanged:
  "(fmt \<noteq> ''0-1'' \<and> fmt \<noteq> ''-1-1'' \<and> fmt \<noteq> ''0-255'' \<longrightarrow>
      normalize self fmt = (Inl InvalidArgument, self)) \<and>
   (fst (normalize self fmt) = Inl e \<longrightarrow> snd (normalize self fmt) = self) \<and>
   (fst (calibrate self) = Inl e \<longrightarrow> snd (calibrate self) = self)"
proof (intro conjI impI)
  assume "fmt \<noteq> ''0-1'' \<and> fmt \<noteq> ''-1-1'' \<and> fmt \<noteq> ''0-255''"
  then show "normalize self fmt = (Inl InvalidArgument, self)"
    by (simp add: normalize_invalid_format)
next
  assume "fst (normalize self fmt) = Inl e"
  then show "snd (normalize self fmt) = self" by (rule normalize_error_unchanged)
next
  assume "fst (calibrate self) = Inl e"
  then show "snd (calibrate self) = self" by (rule calibrate_error_unchanged)
qed

theorem validation_failure_leaves_image_unchanged_witness:
  "''invalid-format'' \<noteq> ''0-1'' \<and> ''invalid-format'' \<noteq> ''-1-1'' \<and> ''invalid-format'' \<noteq> ''0-255'' \<and>
   normalize (sample_image [[Fin 0, Fin 2]]) ''invalid-format'' =
     (Inl InvalidArgument, sample_image [[Fin 0, Fin 2]]) \<and>
   fst (calibrate (sample_image [[Fin 0, Fin 2]])) = Inl InvalidState \<and>
   snd (calibrate (sample_image [[Fin 0, Fin 2]])) = sample_image [[Fin 0, Fin 2]]"
proof -
  let ?a = "sample_image [[Fin 0, Fin 2]]"
  have fails: "fst (calibrate ?a) = Inl InvalidState" by (simp add: eval_simps)
  have fmt: "''invalid-format'' \<noteq> ''0-1'' \<and> ''invalid-format'' \<noteq> ''-1-1'' \<and>
    ''invalid-format'' \<noteq> ''0-255''" by simp
  note t = validation_failure_leaves_image_unchanged[of "''invalid-format''" ?a InvalidState]
  from t fmt have "normalize ?a ''invalid-format'' = (Inl InvalidArgument, ?a)" by blast
  moreover from t fails have "snd (calibrate ?a) = ?a" by blast
  ultimately show ?thesis using fmt fails by blast
qed

section \<open>Normalization: formulas and output range\<close>














section \<open>Encoding\<close>






section \<open>Which stages assign the data\<close>




section \<open>The file name parser: the matcher against the pattern\<close>

lemma strip_prefix_iff: "strip_prefix p s = Some r \<longleftrightarrow> s = p @ r"
  by (induction p s rule: strip_prefix.induct) auto

lemma not_digit_underscore: "\<not> is_digit (CHR ''_'')"
  by (simp add: is_digit_def)

lemma takeWhile_digits:
  assumes "list_all is_digit d"
  shows "takeWhile is_digit (d @ CHR ''_'' # rest) = d"
    and "dropWhile is_digit (d @ CHR ''_'' # rest) = CHR ''_'' # rest"
  using assms by (simp_all add: list_all_iff takeWhile_append2 dropWhile_append2 not_digit_underscore)

lemma takeWhile_all: "list_all P (takeWhile P xs)"
  by (induction xs) simp_all

lemma timestamp_split:
  assumes "15 \<le> length s"
  shows "take 15 s = take 8 s @ s ! 8 # take 6 (drop 9 s)"
proof -
  have "take 15 s = take 8 s @ take 7 (drop 8 s)"
    using take_add[of 8 7 s] by simp
  moreover have "drop 8 s = s ! 8 # drop 9 s"
    using assms Cons_nth_drop_Suc[of 8 s] by simp
  ultimately show ?thesis by simp
qed

lemma match_at_sound:
  assumes "match_at s = Some (g1, g2, g3)"
  shows "\<exists>m rest. s = m @ rest \<and> iceye_pattern m g1 g2 g3"
proof -
  from assms obtain s1 s2 s3 s4 where
    s: "s = ''ICEYE_X'' @ s1" and d1: "takeWhile is_digit s1 \<noteq> []"
    and s1: "dropWhile is_digit s1 = ''_GRD_'' @ s2"
    and g1: "take 2 s2 = ''SM'' \<or> take 2 s2 = ''SL''"
    and s2: "drop 2 s2 = ''_'' @ s3" and d2: "takeWhile is_digit s3 \<noteq> []"
    and s3: "dropWhile is_digit s3 = ''_'' @ s4"
    and s4: "15 \<le> length s4" "list_all is_digit (take 8 s4)" "s4 ! 8 = CHR ''T''"
      "list_all is_digit (take 6 (drop 9 s4))"
    and g: "g1 = take 2 s2" "g2 = takeWhile is_digit s3" "g3 = take 15 s4"
    unfolding match_at_def strip_prefix_iff[symmetric]
    by (auto split: option.splits if_splits)
  let ?d1 = "takeWhile is_digit s1"
  have a: "s1 = ?d1 @ ''_GRD_'' @ s2" using s1 takeWhile_dropWhile_id[of is_digit s1] by simp
  have b: "s2 = g1 @ ''_'' @ s3" using s2 g(1) append_take_drop_id[of 2 s2] by simp
  have c: "s3 = g2 @ ''_'' @ s4" using s3 g(2) takeWhile_dropWhile_id[of is_digit s3] by simp
  have e: "s4 = g3 @ drop 15 s4" using g(3) by simp
  have g3: "g3 = take 8 s4 @ ''T'' @ take 6 (drop 9 s4)"
    using timestamp_split[OF s4(1)] s4(3) g(3) by simp
  have "s = (''ICEYE_X'' @ ?d1 @ ''_GRD_'' @ g1 @ ''_'' @ g2 @ ''_'' @ g3) @ drop 15 s4"
    using s a b c e by (metis append.assoc)
  moreover have "iceye_pattern (''ICEYE_X'' @ ?d1 @ ''_GRD_'' @ g1 @ ''_'' @ g2 @ ''_'' @ g3) g1 g2 g3"
    unfolding iceye_pattern_def
    apply (rule exI[of _ ?d1], rule exI[of _ "take 8 s4"], rule exI[of _ "take 6 (drop 9 s4)"])
    using d1 d2 g1 g s4 g3 by (simp add: digits_def takeWhile_all)
  ultimately show ?thesis by blast
qed

lemma match_at_complete:
  assumes "iceye_pattern m g1 g2 g3"
  shows "match_at (m @ rest) = Some (g1, g2, g3)"
proof -
  from assms obtain d1 ymd hms where
    m: "m = ''ICEYE_X'' @ d1 @ ''_GRD_'' @ g1 @ ''_'' @ g2 @ ''_'' @ g3"
    and d1: "d1 \<noteq> []" "list_all is_digit d1" and g1: "g1 = ''SM'' \<or> g1 = ''SL''"
    and g2: "g2 \<noteq> []" "list_all is_digit g2"
    and g3: "g3 = ymd @ ''T'' @ hms" "length ymd = 8" "list_all is_digit ymd"
      "length hms = 6" "list_all is_digit hms"
    unfolding iceye_pattern_def digits_def by blast
  let ?s4 = "g3 @ rest"
  let ?s3 = "g2 @ CHR ''_'' # ?s4"
  let ?s2 = "g1 @ CHR ''_'' # ?s3"
  let ?s1 = "d1 @ CHR ''_'' # ''GRD_'' @ ?s2"
  have s: "m @ rest = ''ICEYE_X'' @ ?s1" by (simp add: m)
  have p1: "strip_prefix ''ICEYE_X'' (m @ rest) = Some ?s1"
    unfolding strip_prefix_iff by (rule s)
  have t1: "takeWhile is_digit ?s1 = d1" "dropWhile is_digit ?s1 = ''_GRD_'' @ ?s2"
    using takeWhile_digits[OF d1(2)] by simp_all
  have p2: "strip_prefix ''_GRD_'' (''_GRD_'' @ ?s2) = Some ?s2"
    unfolding strip_prefix_iff by simp
  have t2: "take 2 ?s2 = g1" "drop 2 ?s2 = ''_'' @ ?s3" using g1 by auto
  have p3: "strip_prefix ''_'' (''_'' @ ?s3) = Some ?s3" unfolding strip_prefix_iff by simp
  have t3: "takeWhile is_digit ?s3 = g2" "dropWhile is_digit ?s3 = ''_'' @ ?s4"
    using takeWhile_digits[OF g2(2)] by simp_all
  have p4: "strip_prefix ''_'' (''_'' @ ?s4) = Some ?s4" unfolding strip_prefix_iff by simp
  have l: "length g3 = 15" using g3 by simp
  have t4: "15 \<le> length ?s4" "take 8 ?s4 = ymd" "?s4 ! 8 = CHR ''T''"
    "take 6 (drop 9 ?s4) = hms" "take 15 ?s4 = g3"
    using g3 by (simp_all add: nth_append)
  show ?thesis
    unfolding match_at_def p1 option.case t1 p2 t2 p3 t3 p4 t4
    using d1(1) g1 g2(1) g3(3,5) l by auto
qed

lemma match_at_iff:
  "match_at s = Some (g1, g2, g3) \<longleftrightarrow> (\<exists>m rest. s = m @ rest \<and> iceye_pattern m g1 g2 g3)"
  using match_at_sound match_at_complete by blast























end
